theory Spec2Isabelle
  imports Complex_Main
begin

section \<open>Numbers and arrays of the source language\<close>

text \<open>
  A value of TypeScript type \<open>number\<close> at run time: a finite number, one of the two
  infinities, NaN, or \<open>undefined\<close> (what an out-of-range array read yields, even where the
  declared type is \<open>number\<close>). A finite double is idealised as the real it denotes:
  rounding, overflow and the sign of zero are not modelled (a zero divisor counts as +0).
\<close>

datatype jsnum = Num real | PosInf | NegInf | NaN | Undefined

instantiation jsnum :: "{plus, minus, uminus, times, inverse, ord}"
begin

fun plus_jsnum :: "jsnum \<Rightarrow> jsnum \<Rightarrow> jsnum" where
  "plus_jsnum (Num a) (Num b) = Num (a + b)"
| "plus_jsnum (Num a) PosInf = PosInf"
| "plus_jsnum (Num a) NegInf = NegInf"
| "plus_jsnum PosInf (Num b) = PosInf"
| "plus_jsnum PosInf PosInf = PosInf"
| "plus_jsnum NegInf (Num b) = NegInf"
| "plus_jsnum NegInf NegInf = NegInf"
| "plus_jsnum _ _ = NaN"

fun uminus_jsnum :: "jsnum \<Rightarrow> jsnum" where
  "uminus_jsnum (Num a) = Num (- a)"
| "uminus_jsnum PosInf = NegInf"
| "uminus_jsnum NegInf = PosInf"
| "uminus_jsnum _ = NaN"

fun minus_jsnum :: "jsnum \<Rightarrow> jsnum \<Rightarrow> jsnum" where
  "minus_jsnum (Num a) (Num b) = Num (a - b)"
| "minus_jsnum (Num a) PosInf = NegInf"
| "minus_jsnum (Num a) NegInf = PosInf"
| "minus_jsnum PosInf (Num b) = PosInf"
| "minus_jsnum PosInf NegInf = PosInf"
| "minus_jsnum NegInf (Num b) = NegInf"
| "minus_jsnum NegInf PosInf = NegInf"
| "minus_jsnum _ _ = NaN"

fun times_jsnum :: "jsnum \<Rightarrow> jsnum \<Rightarrow> jsnum" where
  "times_jsnum (Num a) (Num b) = Num (a * b)"
| "times_jsnum (Num a) PosInf = (if a = 0 then NaN else if 0 < a then PosInf else NegInf)"
| "times_jsnum (Num a) NegInf = (if a = 0 then NaN else if 0 < a then NegInf else PosInf)"
| "times_jsnum PosInf (Num b) = (if b = 0 then NaN else if 0 < b then PosInf else NegInf)"
| "times_jsnum NegInf (Num b) = (if b = 0 then NaN else if 0 < b then NegInf else PosInf)"
| "times_jsnum PosInf PosInf = PosInf"
| "times_jsnum PosInf NegInf = NegInf"
| "times_jsnum NegInf PosInf = NegInf"
| "times_jsnum NegInf NegInf = PosInf"
| "times_jsnum _ _ = NaN"

fun divide_jsnum :: "jsnum \<Rightarrow> jsnum \<Rightarrow> jsnum" where
  "divide_jsnum (Num a) (Num b) =
     (if b = 0 then (if a = 0 then NaN else if 0 < a then PosInf else NegInf)
      else Num (a / b))"
| "divide_jsnum (Num a) PosInf = Num 0"
| "divide_jsnum (Num a) NegInf = Num 0"
| "divide_jsnum PosInf (Num b) = (if 0 \<le> b then PosInf else NegInf)"
| "divide_jsnum NegInf (Num b) = (if 0 \<le> b then NegInf else PosInf)"
| "divide_jsnum _ _ = NaN"

definition inverse_jsnum :: "jsnum \<Rightarrow> jsnum" where
  "inverse_jsnum a = divide (Num 1) a"

text \<open>The relational operators: every comparison with NaN or \<open>undefined\<close> is false.\<close>

fun less_jsnum :: "jsnum \<Rightarrow> jsnum \<Rightarrow> bool" where
  "less_jsnum (Num a) (Num b) = (a < b)"
| "less_jsnum (Num a) PosInf = True"
| "less_jsnum NegInf (Num b) = True"
| "less_jsnum NegInf PosInf = True"
| "less_jsnum _ _ = False"

fun less_eq_jsnum :: "jsnum \<Rightarrow> jsnum \<Rightarrow> bool" where
  "less_eq_jsnum (Num a) (Num b) = (a \<le> b)"
| "less_eq_jsnum (Num a) PosInf = True"
| "less_eq_jsnum NegInf (Num b) = True"
| "less_eq_jsnum NegInf PosInf = True"
| "less_eq_jsnum NegInf NegInf = True"
| "less_eq_jsnum PosInf PosInf = True"
| "less_eq_jsnum _ _ = False"

instance ..

end

text \<open>\<open>a === b\<close> on such values: NaN differs from itself.\<close>

fun strict_eq :: "jsnum \<Rightarrow> jsnum \<Rightarrow> bool" where
  "strict_eq NaN _ = False"
| "strict_eq _ NaN = False"
| "strict_eq a b = (a = b)"

text \<open>Truthiness, for \<open>a || b\<close>: 0, NaN and \<open>undefined\<close> are falsy.\<close>

fun falsy :: "jsnum \<Rightarrow> bool" where
  "falsy (Num a) = (a = 0)"
| "falsy NaN = True"
| "falsy Undefined = True"
| "falsy _ = False"

definition js_or :: "jsnum \<Rightarrow> jsnum \<Rightarrow> jsnum" where
  "js_or a b = (if falsy a then b else a)"

fun Math_abs :: "jsnum \<Rightarrow> jsnum" where
  "Math_abs (Num a) = Num \<bar>a\<bar>"
| "Math_abs PosInf = PosInf"
| "Math_abs NegInf = PosInf"
| "Math_abs _ = NaN"

fun Math_sqrt :: "jsnum \<Rightarrow> jsnum" where
  "Math_sqrt (Num a) = (if a < 0 then NaN else Num (sqrt a))"
| "Math_sqrt PosInf = PosInf"
| "Math_sqrt _ = NaN"

text \<open>\<open>Math.pow(x, 2)\<close>.\<close>

fun Math_pow2 :: "jsnum \<Rightarrow> jsnum" where
  "Math_pow2 (Num a) = Num (a * a)"
| "Math_pow2 PosInf = PosInf"
| "Math_pow2 NegInf = PosInf"
| "Math_pow2 _ = NaN"

fun Math_floor :: "jsnum \<Rightarrow> jsnum" where
  "Math_floor (Num a) = Num (of_int \<lfloor>a\<rfloor>)"
| "Math_floor PosInf = PosInf"
| "Math_floor NegInf = NegInf"
| "Math_floor _ = NaN"

text \<open>
  \<open>Math.max(...xs)\<close> and \<open>Math.min(...xs)\<close>: NaN as soon as one argument is NaN or
  \<open>undefined\<close>, and \<open>-Infinity\<close> (\<open>Infinity\<close>) for no argument at all.
\<close>

fun max2 :: "jsnum \<Rightarrow> jsnum \<Rightarrow> jsnum" where
  "max2 NaN _ = NaN"
| "max2 Undefined _ = NaN"
| "max2 _ NaN = NaN"
| "max2 _ Undefined = NaN"
| "max2 a b = (if a < b then b else a)"

fun min2 :: "jsnum \<Rightarrow> jsnum \<Rightarrow> jsnum" where
  "min2 NaN _ = NaN"
| "min2 Undefined _ = NaN"
| "min2 _ NaN = NaN"
| "min2 _ Undefined = NaN"
| "min2 a b = (if b < a then b else a)"

definition Math_max :: "jsnum list \<Rightarrow> jsnum" where
  "Math_max xs = foldl max2 NegInf xs"

definition Math_min :: "jsnum list \<Rightarrow> jsnum" where
  "Math_min xs = foldl min2 PosInf xs"

text \<open>
  \<open>parseFloat(x.toFixed(2))\<close>: the nearest multiple of 0.01, a tie going away from zero;
  from 1e21 on \<open>toFixed\<close> prints the number itself. The infinities print as
  \<open>Infinity\<close> and parse back; NaN stays NaN. The receiver is always the result of an
  arithmetic operation, hence never \<open>undefined\<close>.
\<close>

definition round2 :: "real \<Rightarrow> real" where
  "round2 a =
     (if 10 ^ 21 \<le> \<bar>a\<bar> then a
      else if a < 0 then - (of_int \<lfloor>- a * 100 + 1 / 2\<rfloor> / 100)
      else of_int \<lfloor>a * 100 + 1 / 2\<rfloor> / 100)"

fun parseFloat_toFixed2 :: "jsnum \<Rightarrow> jsnum" where
  "parseFloat_toFixed2 (Num a) = Num (round2 a)"
| "parseFloat_toFixed2 PosInf = PosInf"
| "parseFloat_toFixed2 NegInf = NegInf"
| "parseFloat_toFixed2 _ = NaN"

text \<open>
  Array reads. \<open>xs[i]\<close> past the end is \<open>undefined\<close>; so is \<open>xs[xs.length - 1]\<close> on an
  empty array (index -1). \<open>xs.slice(-p)\<close> keeps the last \<open>p\<close> elements, all of them when
  there are fewer, and \<open>slice(-0)\<close> is \<open>slice(0)\<close>: the whole array.
  \<open>xs.reduce((a, b) => a + b, 0)\<close> is a left fold from 0.
\<close>

definition arr_get :: "jsnum list \<Rightarrow> nat \<Rightarrow> jsnum" where
  "arr_get xs i = (if i < length xs then xs ! i else Undefined)"

definition arr_last :: "jsnum list \<Rightarrow> jsnum" where
  "arr_last xs = (if xs = [] then Undefined else last xs)"

definition slice_last :: "'a list \<Rightarrow> nat \<Rightarrow> 'a list" where
  "slice_last xs p = (if p = 0 then xs else drop (length xs - p) xs)"

definition reduce_sum :: "jsnum list \<Rightarrow> jsnum" where
  "reduce_sum xs = foldl (+) (Num 0) xs"

text \<open>A period is a count of bars (the callers pass 9, 14, 20, 26, 50, 200): a \<open>nat\<close>.\<close>

definition of_period :: "nat \<Rightarrow> jsnum" where
  "of_period p = Num (real p)"

section \<open>The indicator library (utils.ts)\<close>

subsection \<open>Data types (types.ts)\<close>

datatype Timeframe = M1 | M5 | M15

datatype SignalType = BUY | SELL | NEUTRAL | WAIT

record MACD =
  macdLine :: jsnum
  signalLine :: jsnum
  histogram :: jsnum

record BollingerBands =
  upper :: jsnum
  middle :: jsnum
  lower :: jsnum

datatype CloudStatus = ABOVE | BELOW | INSIDE

record Ichimoku =
  tenkan :: jsnum
  kijun :: jsnum
  cloudStatus :: CloudStatus

record PivotPoints =
  pivot :: jsnum
  r1 :: jsnum
  s1 :: jsnum
  r2 :: jsnum
  s2 :: jsnum

record Stochastic =
  k :: jsnum
  d :: jsnum

record Candle =
  time :: jsnum
  "open" :: jsnum
  high :: jsnum
  low :: jsnum
  close :: jsnum
  volume :: jsnum

subsection \<open>Moving averages\<close>

definition calculateSMA :: "jsnum list \<Rightarrow> nat \<Rightarrow> jsnum" where
  "calculateSMA data period =
     (if length data < period then arr_last data
      else let slice = slice_last data period;
               sum = reduce_sum slice
           in sum / of_period period)"

text \<open>
  The loop of \<open>calculateEMA\<close> runs \<open>i\<close> from 1 up to \<open>data.length\<close> and pushes one value
  per round, computed from \<open>data[i]\<close> and the value pushed last, \<open>emaArray[i - 1]\<close>.
  The smoothing constant, \<open>k\<close> in the source, is \<open>kk\<close> here.
\<close>

definition ema_step :: "jsnum list \<Rightarrow> jsnum \<Rightarrow> jsnum list \<Rightarrow> nat \<Rightarrow> jsnum list" where
  "ema_step data kk emaArray i =
     (let ema = (arr_get data i * kk) + (arr_get emaArray (i - 1) * (Num 1 - kk))
      in emaArray @ [ema])"

definition calculateEMA :: "jsnum list \<Rightarrow> nat \<Rightarrow> jsnum list" where
  "calculateEMA data period =
     (let kk = Num 2 / (of_period period + Num 1)
      in foldl (ema_step data kk) [arr_get data 0] [1..<length data])"

subsection \<open>Pivot points\<close>

definition calculatePivotPoints :: "jsnum \<Rightarrow> jsnum \<Rightarrow> jsnum \<Rightarrow> PivotPoints" where
  "calculatePivotPoints h l c =
     (let pivot = (h + l + c) / Num 3;
          r1 = (Num 2 * pivot) - l;
          s1 = (Num 2 * pivot) - h;
          r2 = pivot + (h - l);
          s2 = pivot - (h - l)
      in \<lparr>pivot = pivot, r1 = r1, s1 = s1, r2 = r2, s2 = s2\<rparr>)"

subsection \<open>MACD and Bollinger bands\<close>

definition calculateMACD :: "jsnum list \<Rightarrow> MACD" where
  "calculateMACD prices =
     (if length prices < 26 then \<lparr>macdLine = Num 0, signalLine = Num 0, histogram = Num 0\<rparr>
      else let ema12 = calculateEMA prices 12;
               ema26 = calculateEMA prices 26;
               macdLineArr = map (\<lambda>i. arr_get ema12 i - arr_get ema26 i) [0..<length prices];
               signalLineArr = calculateEMA macdLineArr 9;
               currentMACD = arr_last macdLineArr;
               currentSignal = arr_last signalLineArr
           in \<lparr>macdLine = currentMACD, signalLine = currentSignal,
               histogram = currentMACD - currentSignal\<rparr>)"

definition calculateBollingerBands :: "jsnum list \<Rightarrow> nat \<Rightarrow> jsnum \<Rightarrow> BollingerBands" where
  "calculateBollingerBands prices period multiplier =
     (if length prices < period
      then \<lparr>upper = arr_last prices, middle = arr_last prices, lower = arr_last prices\<rparr>
      else let sma = calculateSMA prices period;
               slice = slice_last prices period;
               mean = reduce_sum slice / of_period period;
               squaredDiffs = map (\<lambda>x. Math_pow2 (x - mean)) slice;
               standardDeviation = Math_sqrt (reduce_sum squaredDiffs / of_period period)
           in \<lparr>upper = sma + (standardDeviation * multiplier),
               middle = sma,
               lower = sma - (standardDeviation * multiplier)\<rparr>)"

subsection \<open>ATR, Stochastic, RSI\<close>

text \<open>The true range of bar \<open>i\<close> (with \<open>1 \<le> i\<close>), as the loops of ATR and ADX compute it.\<close>

definition true_range :: "jsnum list \<Rightarrow> jsnum list \<Rightarrow> jsnum list \<Rightarrow> nat \<Rightarrow> jsnum" where
  "true_range highs lows closes i =
     Math_max [arr_get highs i - arr_get lows i,
               Math_abs (arr_get highs i - arr_get closes (i - 1)),
               Math_abs (arr_get lows i - arr_get closes (i - 1))]"

definition calculateATR :: "jsnum list \<Rightarrow> jsnum list \<Rightarrow> jsnum list \<Rightarrow> nat \<Rightarrow> jsnum" where
  "calculateATR highs lows closes period =
     (if length highs < period + 1 then Num 1
      else let trs = map (true_range highs lows closes) [1..<length highs];
               slice = slice_last trs period
           in reduce_sum slice / of_period period)"

text \<open>The local \<open>k\<close> of \<open>calculateStochastic\<close> is \<open>kv\<close> here: it starts at 50.\<close>

definition calculateStochastic ::
  "jsnum list \<Rightarrow> jsnum list \<Rightarrow> jsnum list \<Rightarrow> nat \<Rightarrow> Stochastic" where
  "calculateStochastic highs lows closes period =
     (if length highs < period then \<lparr>k = Num 50, d = Num 50\<rparr>
      else let currentClose = arr_last closes;
               periodHighs = slice_last highs period;
               periodLows = slice_last lows period;
               highestHigh = Math_max periodHighs;
               lowestLow = Math_min periodLows;
               kv = (if \<not> strict_eq highestHigh lowestLow
                     then ((currentClose - lowestLow) / (highestHigh - lowestLow)) * Num 100
                     else Num 50)
           in \<lparr>k = kv, d = kv\<rparr>)"

text \<open>The two loops of \<open>calculateRSI\<close>, one round each, on the pair of running values.\<close>

definition rsi_seed_step :: "jsnum list \<Rightarrow> jsnum \<times> jsnum \<Rightarrow> nat \<Rightarrow> jsnum \<times> jsnum" where
  "rsi_seed_step prices gl i =
     (let gains = fst gl; losses = snd gl;
          diff = arr_get prices i - arr_get prices (i - 1)
      in if Num 0 \<le> diff then (gains + diff, losses)
         else (gains, losses + Math_abs diff))"

definition rsi_smooth_step ::
  "jsnum list \<Rightarrow> nat \<Rightarrow> jsnum \<times> jsnum \<Rightarrow> nat \<Rightarrow> jsnum \<times> jsnum" where
  "rsi_smooth_step prices period avgs i =
     (let avgGain = fst avgs; avgLoss = snd avgs;
          diff = arr_get prices i - arr_get prices (i - 1);
          currentGain = (if Num 0 < diff then diff else Num 0);
          currentLoss = (if diff < Num 0 then Math_abs diff else Num 0)
      in (((avgGain * (of_period period - Num 1)) + currentGain) / of_period period,
          ((avgLoss * (of_period period - Num 1)) + currentLoss) / of_period period))"

definition calculateRSI :: "jsnum list \<Rightarrow> nat \<Rightarrow> jsnum" where
  "calculateRSI prices period =
     (if length prices < period + 1 then Num 50
      else let gl = foldl (rsi_seed_step prices) (Num 0, Num 0) [1..<period + 1];
               avgGain0 = fst gl / of_period period;
               avgLoss0 = snd gl / of_period period;
               avgs = foldl (rsi_smooth_step prices period) (avgGain0, avgLoss0)
                        [period + 1..<length prices];
               avgGain = fst avgs;
               avgLoss = snd avgs
           in if strict_eq avgLoss (Num 0) then Num 100
              else let rs = avgGain / avgLoss;
                       rsi = Num 100 - (Num 100 / (Num 1 + rs))
                   in parseFloat_toFixed2 rsi)"

subsection \<open>ADX and Ichimoku\<close>

text \<open>The directional movement pushed for bar \<open>i\<close>: the pair (+DM, -DM).\<close>

definition directional_move :: "jsnum list \<Rightarrow> jsnum list \<Rightarrow> nat \<Rightarrow> jsnum \<times> jsnum" where
  "directional_move highs lows i =
     (let upMove = arr_get highs i - arr_get highs (i - 1);
          downMove = arr_get lows (i - 1) - arr_get lows i
      in if downMove < upMove \<and> Num 0 < upMove then (upMove, Num 0)
         else if upMove < downMove \<and> Num 0 < downMove then (Num 0, downMove)
         else (Num 0, Num 0))"

definition adx_smooth_step ::
  "jsnum list \<Rightarrow> jsnum list \<Rightarrow> jsnum list \<Rightarrow> nat \<Rightarrow> jsnum \<times> jsnum \<times> jsnum \<Rightarrow> nat
   \<Rightarrow> jsnum \<times> jsnum \<times> jsnum" where
  "adx_smooth_step trs plusDMs minusDMs period sm i =
     (let smoothTR = fst sm; smoothPlusDM = fst (snd sm); smoothMinusDM = snd (snd sm)
      in (smoothTR - (smoothTR / of_period period) + arr_get trs i,
          smoothPlusDM - (smoothPlusDM / of_period period) + arr_get plusDMs i,
          smoothMinusDM - (smoothMinusDM / of_period period) + arr_get minusDMs i))"

definition calculateADX :: "jsnum list \<Rightarrow> jsnum list \<Rightarrow> jsnum list \<Rightarrow> nat \<Rightarrow> jsnum" where
  "calculateADX highs lows closes period =
     (if length highs < period * 2 then Num 20
      else let trs = map (true_range highs lows closes) [1..<length highs];
               plusDMs = map (\<lambda>i. fst (directional_move highs lows i)) [1..<length highs];
               minusDMs = map (\<lambda>i. snd (directional_move highs lows i)) [1..<length highs];
               sm0 = (reduce_sum (take period trs),
                      reduce_sum (take period plusDMs),
                      reduce_sum (take period minusDMs));
               sm = foldl (adx_smooth_step trs plusDMs minusDMs period) sm0
                      [period..<length trs];
               smoothTR = fst sm;
               smoothPlusDM = fst (snd sm);
               smoothMinusDM = snd (snd sm);
               plusDI = (smoothPlusDM / smoothTR) * Num 100;
               minusDI = (smoothMinusDM / smoothTR) * Num 100;
               dx = (Math_abs (plusDI - minusDI) / (plusDI + minusDI)) * Num 100
           in parseFloat_toFixed2 dx)"

definition getAverage :: "jsnum list \<Rightarrow> jsnum list \<Rightarrow> nat \<Rightarrow> jsnum" where
  "getAverage highs lows period =
     (if length highs < period then (arr_last highs + arr_last lows) / Num 2
      else let sliceHigh = slice_last highs period;
               sliceLow = slice_last lows period;
               mx = Math_max sliceHigh;
               mn = Math_min sliceLow
           in (mx + mn) / Num 2)"

definition calculateIchimoku :: "jsnum list \<Rightarrow> jsnum list \<Rightarrow> Ichimoku" where
  "calculateIchimoku highs lows =
     (let tenkan = getAverage highs lows 9;
          kijun = getAverage highs lows 26;
          cloudStatus = (if kijun < tenkan then ABOVE else BELOW)
      in \<lparr>tenkan = tenkan, kijun = kijun, cloudStatus = cloudStatus\<rparr>)"

section \<open>The snapshot aggregator (App.tsx)\<close>

text \<open>Reading a property of \<open>undefined\<close>, or calling a method on it, throws.\<close>

datatype js_error = TypeError

text \<open>
  The tick callback's update of the candle history: amend the last candle when the new one
  carries its time, else push and keep at most 300.
\<close>

definition updatedHistory :: "Candle list \<Rightarrow> Candle \<Rightarrow> Candle list" where
  "updatedHistory current newCandle =
     (if current \<noteq> [] \<and> strict_eq (Candle.time (last current)) (Candle.time newCandle)
      then current[length current - 1 := newCandle]
      else let pushed = current @ [newCandle]
           in if 300 < length pushed then tl pushed else pushed)"

record Techs =
  rsi :: jsnum
  ma50 :: jsnum
  ema200 :: jsnum
  macd :: MACD
  bollinger :: BollingerBands
  atr :: jsnum
  stoch :: Stochastic
  adx :: jsnum
  ichimoku :: Ichimoku
  pivots :: PivotPoints

text \<open>\<open>processIndicators\<close> reads the fields of the last candle: on no candle it throws.\<close>

definition processIndicators :: "Candle list \<Rightarrow> js_error + Techs" where
  "processIndicators candles =
     (let closes = map Candle.close candles;
          highs = map Candle.high candles;
          lows = map Candle.low candles;
          rsi = calculateRSI closes 14;
          ma50 = calculateSMA closes 50;
          ema200Arr = calculateEMA closes 200;
          ema200 = js_or (arr_last ema200Arr) ma50;
          macd = calculateMACD closes;
          bollinger = calculateBollingerBands closes 20 (Num 2);
          atr = calculateATR highs lows closes 14;
          stoch = calculateStochastic highs lows closes 14;
          adx = calculateADX highs lows closes 14;
          ichimoku = calculateIchimoku highs lows
      in if candles = [] then Inl TypeError
         else let lastCandle = last candles;
                  pivots = calculatePivotPoints (Candle.high lastCandle) (Candle.low lastCandle)
                             (Candle.close lastCandle)
              in Inr \<lparr>Techs.rsi = rsi, ma50 = ma50, ema200 = ema200, macd = macd,
                      bollinger = bollinger, atr = atr, stoch = stoch, adx = adx,
                      ichimoku = ichimoku, pivots = pivots\<rparr>)"

record MarketData =
  price :: jsnum
  change :: jsnum
  changePercent :: jsnum
  high :: jsnum
  low :: jsnum
  volume :: jsnum
  rsi :: jsnum
  ma50 :: jsnum
  ema200 :: jsnum
  macd :: MACD
  bollinger :: BollingerBands
  stochK :: jsnum
  stochD :: jsnum
  atr :: jsnum
  adx :: jsnum
  ichimoku :: Ichimoku
  pivots :: PivotPoints

definition INITIAL_PRICE :: jsnum where
  "INITIAL_PRICE = Num 2650"

definition initialMarketData :: MarketData where
  "initialMarketData =
     \<lparr>price = INITIAL_PRICE, change = Num 0, changePercent = Num 0,
      high = INITIAL_PRICE, low = INITIAL_PRICE, volume = Num 0,
      rsi = Num 50, ma50 = INITIAL_PRICE, ema200 = INITIAL_PRICE,
      macd = \<lparr>macdLine = Num 0, signalLine = Num 0, histogram = Num 0\<rparr>,
      bollinger = \<lparr>upper = INITIAL_PRICE, middle = INITIAL_PRICE, lower = INITIAL_PRICE\<rparr>,
      stochK = Num 50, stochD = Num 50, atr = Num (3 / 2), adx = Num 20,
      ichimoku = \<lparr>tenkan = INITIAL_PRICE, kijun = INITIAL_PRICE, cloudStatus = INSIDE\<rparr>,
      pivots = \<lparr>pivot = INITIAL_PRICE, r1 = INITIAL_PRICE, s1 = INITIAL_PRICE,
                r2 = INITIAL_PRICE, s2 = INITIAL_PRICE\<rparr>\<rparr>"

text \<open>
  The state the two event handlers share: the candle history (\<open>candlesRef.current\<close>) and
  the snapshot (\<open>marketData\<close>). The chart points and the connection flag are not part
  of it.
\<close>

record AppState =
  candlesRef :: "Candle list"
  marketData :: MarketData

text \<open>\<open>initMarket\<close>, once the history has been fetched: an empty history changes nothing.\<close>

definition initMarket :: "AppState \<Rightarrow> Candle list \<Rightarrow> js_error + AppState" where
  "initMarket st history =
     (if 0 < length history
      then let lastCandle = last history;
               prevCandle = (if 2 \<le> length history then history ! (length history - 2)
                             else lastCandle)
           in case processIndicators history of
                Inl e \<Rightarrow> Inl e
              | Inr techs \<Rightarrow>
                  Inr (st\<lparr>candlesRef := history,
                          marketData :=
                            \<lparr>price = Candle.close lastCandle,
                             change = Candle.close lastCandle - Candle.close prevCandle,
                             changePercent =
                               ((Candle.close lastCandle - Candle.close prevCandle)
                                  / Candle.close prevCandle) * Num 100,
                             high = Candle.high lastCandle,
                             low = Candle.low lastCandle,
                             volume = Candle.volume lastCandle,
                             rsi = Techs.rsi techs,
                             ma50 = Techs.ma50 techs,
                             ema200 = Techs.ema200 techs,
                             macd = Techs.macd techs,
                             bollinger = Techs.bollinger techs,
                             stochK = k (Techs.stoch techs),
                             stochD = d (Techs.stoch techs),
                             atr = Techs.atr techs,
                             adx = Techs.adx techs,
                             ichimoku = Techs.ichimoku techs,
                             pivots = Techs.pivots techs\<rparr>\<rparr>)
      else Inr st)"

text \<open>The callback given to \<open>subscribeToMarket\<close>, run on every tick.\<close>

definition onTick :: "AppState \<Rightarrow> Candle \<Rightarrow> js_error + AppState" where
  "onTick st newCandle =
     (let hist = updatedHistory (candlesRef st) newCandle
      in case processIndicators hist of
           Inl e \<Rightarrow> Inl e
         | Inr techs \<Rightarrow>
             let prevClose = (if 1 < length hist then Candle.close (hist ! (length hist - 2))
                              else Candle.open newCandle);
                 prev = marketData st
             in Inr (st\<lparr>candlesRef := hist,
                        marketData :=
                          prev\<lparr>price := Candle.close newCandle,
                               change := Candle.close newCandle - prevClose,
                               changePercent :=
                                 (if \<not> strict_eq prevClose (Num 0)
                                  then ((Candle.close newCandle - prevClose) / prevClose) * Num 100
                                  else Num 0),
                               high := Math_max [MarketData.high prev, Candle.high newCandle],
                               low := Math_min [MarketData.low prev, Candle.low newCandle],
                               volume := Candle.volume newCandle,
                               rsi := Techs.rsi techs,
                               ma50 := Techs.ma50 techs,
                               ema200 := Techs.ema200 techs,
                               macd := Techs.macd techs,
                               bollinger := Techs.bollinger techs,
                               stochK := k (Techs.stoch techs),
                               stochD := d (Techs.stoch techs),
                               atr := Techs.atr techs,
                               adx := Techs.adx techs,
                               ichimoku := Techs.ichimoku techs,
                               pivots := Techs.pivots techs\<rparr>\<rparr>))"

subsection \<open>The calibration offset\<close>

definition displayData :: "MarketData \<Rightarrow> jsnum \<Rightarrow> MarketData" where
  "displayData md priceOffset =
     (let offset = priceOffset
      in md\<lparr>price := price md + offset,
            high := MarketData.high md + offset,
            low := MarketData.low md + offset,
            ma50 := ma50 md + offset,
            ema200 := ema200 md + offset,
            bollinger := \<lparr>upper = upper (bollinger md) + offset,
                          middle = middle (bollinger md) + offset,
                          lower = lower (bollinger md) + offset\<rparr>,
            ichimoku := (ichimoku md)\<lparr>tenkan := tenkan (ichimoku md) + offset,
                                       kijun := kijun (ichimoku md) + offset\<rparr>,
            pivots := \<lparr>pivot = pivot (pivots md) + offset,
                       r1 = r1 (pivots md) + offset,
                       s1 = s1 (pivots md) + offset,
                       r2 = r2 (pivots md) + offset,
                       s2 = s2 (pivots md) + offset\<rparr>\<rparr>)"

text \<open>The object \<open>runBatchScanner\<close> hands to \<open>analyzeAllTimeframes\<close>.\<close>

definition aiData :: "MarketData \<Rightarrow> jsnum \<Rightarrow> MarketData" where
  "aiData currentRaw currentOffset =
     currentRaw\<lparr>price := price currentRaw + currentOffset,
                ema200 := ema200 currentRaw + currentOffset,
                ichimoku := (ichimoku currentRaw)
                              \<lparr>tenkan := tenkan (ichimoku currentRaw) + currentOffset,
                               kijun := kijun (ichimoku currentRaw) + currentOffset\<rparr>,
                pivots := \<lparr>pivot = pivot (pivots currentRaw) + currentOffset,
                           r1 = r1 (pivots currentRaw) + currentOffset,
                           s1 = s1 (pivots currentRaw) + currentOffset,
                           r2 = r2 (pivots currentRaw) + currentOffset,
                           s2 = s2 (pivots currentRaw) + currentOffset\<rparr>,
                bollinger := \<lparr>upper = upper (bollinger currentRaw) + currentOffset,
                              middle = middle (bollinger currentRaw) + currentOffset,
                              lower = lower (bollinger currentRaw) + currentOffset\<rparr>\<rparr>"

section \<open>The fallback signal heuristic (geminiService.ts)\<close>

record SignalData =
  type :: SignalType
  confidence :: jsnum
  entryPrice :: jsnum
  stopLoss :: jsnum
  takeProfit :: jsnum
  reasoning :: string
  timestamp :: jsnum

text \<open>
  \<open>x.toFixed(1)\<close> as text: the digits of the nearest multiple of 0.1 (a tie away from
  zero), after a minus sign for a negative \<open>x\<close>. It throws on \<open>undefined\<close>. (From 1e21
  on JavaScript prints an exponent instead; the digits are kept here.)
\<close>

fun show_nat :: "nat \<Rightarrow> string" where
  "show_nat n =
     (if n < 10 then [char_of (48 + n)]
      else show_nat (n div 10) @ [char_of (48 + n mod 10)])"

fun toFixed1 :: "jsnum \<Rightarrow> js_error + string" where
  "toFixed1 (Num a) =
     (let n = nat \<lfloor>\<bar>a\<bar> * 10 + 1 / 2\<rfloor>
      in Inr ((if a < 0 then ''-'' else []) @ show_nat (n div 10) @ ''.'' @ show_nat (n mod 10)))"
| "toFixed1 PosInf = Inr ''Infinity''"
| "toFixed1 NegInf = Inr ''-Infinity''"
| "toFixed1 NaN = Inr ''NaN''"
| "toFixed1 Undefined = Inl TypeError"

text \<open>
  \<open>generateOne\<close>, with the clock (\<open>Date.now()\<close>) and the draw of \<open>Math.random()\<close> as
  arguments. The locals \<open>type\<close> and \<open>confidence\<close> start at NEUTRAL and 50; the rule cascade
  assigns them.
\<close>

definition generateOne ::
  "MarketData \<Rightarrow> jsnum \<Rightarrow> jsnum \<Rightarrow> Timeframe \<Rightarrow> js_error + SignalData" where
  "generateOne data now random tf =
     (let initial = (NEUTRAL, Num 50);
          trendBullish = (ema200 data < price data \<and> kijun (ichimoku data) < price data);
          trendBearish = (price data < ema200 data \<and> price data < kijun (ichimoku data));
          momBullish = (rsi data < Num 45 \<and> Num 0 < histogram (macd data));
          momBearish = (Num 55 < rsi data \<and> histogram (macd data) < Num 0);
          tc = (if trendBullish \<and> momBullish then (BUY, Num 80)
                else if trendBearish \<and> momBearish then (SELL, Num 80)
                else if adx data < Num 20
                then (if price data \<le> lower (bollinger data) then (BUY, Num 65)
                      else if upper (bollinger data) \<le> price data then (SELL, Num 65)
                      else (WAIT, snd initial))
                else (WAIT, snd initial));
          type = fst tc;
          confidence = snd tc;
          atrMultiplier = (if tf = M1 then Num (3 / 2) else Num 2);
          slDist = atr data * atrMultiplier;
          tpDist = slDist * Num 2
      in case toFixed1 (adx data) of
           Inl e \<Rightarrow> Inl e
         | Inr adxText \<Rightarrow>
             Inr \<lparr>type = type,
                  confidence = Math_floor (confidence + (random * Num 5)),
                  entryPrice = price data,
                  stopLoss = parseFloat_toFixed2
                               (price data + (if type = BUY then - slDist else slDist)),
                  takeProfit = parseFloat_toFixed2
                                 (price data + (if type = BUY then tpDist else - tpDist)),
                  reasoning = ''Simulated (Exness Mode): Price calibrated. ADX '' @ adxText
                    @ '' suggests '' @ (if Num 25 < adx data then ''Trend'' else ''Range'')
                    @ ''. Ichimoku ''
                    @ (if trendBullish then ''Bullish''
                       else if trendBearish then ''Bearish'' else ''Neutral'')
                    @ ''.'',
                  timestamp = now\<rparr>)"

section \<open>Sample data for the worked instances\<close>

text \<open>A bar at time \<open>t\<close> whose four prices all equal \<open>v\<close>, with volume 0.\<close>

definition flat_candle :: "real \<Rightarrow> real \<Rightarrow> Candle" where
  "flat_candle t v =
     \<lparr>time = Num t, open = Num v, high = Num v, low = Num v, close = Num v, volume = Num 0\<rparr>"

text \<open>
  A snapshot of a ranging market with the price under the lower Bollinger band: the
  initial snapshot with price 10.0625, ATR 1, ADX 10 and bands 11, 15, 20.
\<close>

definition ranging_snapshot :: MarketData where
  "ranging_snapshot =
     initialMarketData\<lparr>price := Num (161 / 16), atr := Num 1, adx := Num 10,
       bollinger := \<lparr>upper = Num 20, middle = Num 15, lower = Num 11\<rparr>\<rparr>"

section \<open>Auxiliary facts\<close>

subsection \<open>Maxima, minima and slices of finite numbers\<close>





lemma Math_max_pair: "Math_max [Num a, Num b] = Num (max a b)"
  by (simp add: Math_max_def max_def)

lemma Math_min_pair: "Math_min [Num a, Num b] = Num (min a b)"
  by (auto simp add: Math_min_def min_def)






text \<open>Rounding to two decimals moves a value by at most half a cent.\<close>

lemma round2_close: "\<bar>round2 a - a\<bar> \<le> 1 / 200"
proof -
  have fl: "\<bar>of_int \<lfloor>x + 1 / 2\<rfloor> / 100 - x / 100\<bar> \<le> 1 / 200" for x :: real
    by linarith
  show ?thesis
  proof (cases "10 ^ 21 \<le> \<bar>a\<bar>")
    case True
    then show ?thesis by (simp add: round2_def)
  next
    case big: False
    show ?thesis
    proof (cases "a < 0")
      case True
      have "\<bar>of_int \<lfloor>- a * 100 + 1 / 2\<rfloor> / 100 - (- a * 100) / 100\<bar> \<le> 1 / 200"
        by (rule fl)
      then have "\<bar>- (of_int \<lfloor>- a * 100 + 1 / 2\<rfloor> / 100) - a\<bar> \<le> 1 / 200"
        by linarith
      then show ?thesis using big True by (simp add: round2_def)
    next
      case False
      have "\<bar>of_int \<lfloor>a * 100 + 1 / 2\<rfloor> / 100 - (a * 100) / 100\<bar> \<le> 1 / 200"
        by (rule fl)
      then have "\<bar>of_int \<lfloor>a * 100 + 1 / 2\<rfloor> / 100 - a\<bar> \<le> 1 / 200"
        by linarith
      then show ?thesis using big False by (simp add: round2_def)
    qed
  qed
qed

subsection \<open>The EMA loop\<close>

lemma length_ema_loop: "length (foldl (ema_step data kk) acc is) = length acc + length is"
  by (induction "is" arbitrary: acc) (simp_all add: ema_step_def Let_def)

lemma hd_ema_loop: "acc \<noteq> [] \<Longrightarrow> hd (foldl (ema_step data kk) acc is) = hd acc"
  by (induction "is" arbitrary: acc) (simp_all add: ema_step_def Let_def)

lemma length_calculateEMA: "length (calculateEMA data p) = max 1 (length data)"
  by (simp add: calculateEMA_def Let_def length_ema_loop)

lemma hd_calculateEMA: "hd (calculateEMA data p) = arr_get data 0"
  by (simp add: calculateEMA_def Let_def hd_ema_loop)

subsection \<open>The stochastic oscillator on well-formed bars\<close>


subsection \<open>The candle history and the handlers\<close>

lemma length_updatedHistory:
  "length (updatedHistory series c) =
     (if series \<noteq> [] \<and> strict_eq (Candle.time (last series)) (Candle.time c)
      then length series
      else if 300 \<le> length series then length series else Suc (length series))"
  by (auto simp add: updatedHistory_def Let_def)

lemma updatedHistory_nonempty: "updatedHistory series c \<noteq> []"
proof
  assume "updatedHistory series c = []"
  then have "length (updatedHistory series c) = 0" by simp
  then show False by (simp add: length_updatedHistory split: if_splits)
qed

lemma processIndicators_Inr: "candles \<noteq> [] \<Longrightarrow> \<exists>t. processIndicators candles = Inr t"
  by (simp add: processIndicators_def Let_def)

lemma processIndicators_empty: "processIndicators [] = Inl TypeError"
  by (simp add: processIndicators_def Let_def)

lemma toFixed1_Inr: "a \<noteq> Undefined \<Longrightarrow> \<exists>t. toFixed1 a = Inr t"
  by (cases a) (simp_all add: Let_def)

lemma aiData_fields:
  "MarketData.high (aiData md off) = MarketData.high md
   \<and> MarketData.low (aiData md off) = MarketData.low md
   \<and> ma50 (aiData md off) = ma50 md
   \<and> price (aiData md off) = price md + off
   \<and> ema200 (aiData md off) = ema200 md + off"
  by (simp add: aiData_def)

lemma displayData_fields:
  "MarketData.high (displayData md off) = MarketData.high md + off
   \<and> MarketData.low (displayData md off) = MarketData.low md + off
   \<and> ma50 (displayData md off) = ma50 md + off
   \<and> price (displayData md off) = price md + off
   \<and> ema200 (displayData md off) = ema200 md + off"
  by (simp add: displayData_def Let_def)

section \<open>The claims\<close>

subsection \<open>C1: warm-up fallbacks\<close>



subsection \<open>C2: the order of the pivot levels\<close>




subsection \<open>C3: the EMA series\<close>

text \<open>
  C3 as stated fails on the empty array: the series is seeded with \<open>data[0]\<close> before the
  loop, so \<open>calculateEMA([], p)\<close> is \<open>[undefined]\<close>, of length 1.
\<close>

theorem ema_length_counterexample:
  "calculateEMA [] 14 = [Undefined]
   \<and> length (calculateEMA [] 14) \<noteq> length ([] :: jsnum list)"
  by (simp add: calculateEMA_def Let_def arr_get_def)

text \<open>
  C3, amended. For every non-empty array \<open>data\<close> and every period \<open>p\<close>,
  \<open>calculateEMA(data, p)\<close> has the length of \<open>data\<close> and its first element is \<open>data[0]\<close>.
\<close>

theorem ema_length_first:
  assumes "data \<noteq> []"
  shows "length (calculateEMA data p) = length data
       \<and> arr_get (calculateEMA data p) 0 = arr_get data 0
       \<and> calculateEMA data p ! 0 = data ! 0"
proof -
  have len: "length (calculateEMA data p) = length data"
    using assms by (cases data) (simp_all add: length_calculateEMA)
  then have ne: "calculateEMA data p \<noteq> []"
    using assms by auto
  have "calculateEMA data p ! 0 = hd (calculateEMA data p)"
    using ne by (simp add: hd_conv_nth)
  then have first: "calculateEMA data p ! 0 = arr_get data 0"
    by (simp add: hd_calculateEMA)
  show ?thesis
    using assms len first ne by (simp add: arr_get_def)
qed

text \<open>Three closes, period 1 (so the smoothing constant is 1 and the series is the input).\<close>

theorem ema_length_first_witness:
  "[Num 1, Num 2, Num 4] \<noteq> []
   \<and> length (calculateEMA [Num 1, Num 2, Num 4] 1) = 3
   \<and> calculateEMA [Num 1, Num 2, Num 4] 1 ! 0 = Num 1"
proof -
  have h: "[Num 1, Num 2, Num 4] \<noteq> []" by simp
  show ?thesis
    using h ema_length_first [OF h, of 1] by simp
qed

subsection \<open>C4: the range of the stochastic oscillator\<close>




subsection \<open>C5: the candle series on a tick\<close>



subsection \<open>C6: RSI of a flat series\<close>

text \<open>
  C6. For twenty closes all equal to 100 and period 14, every difference is zero, the
  average loss is zero, and \<open>calculateRSI\<close> returns 100, not 50.
\<close>

theorem rsi_flat_series:
  "calculateRSI (replicate 20 (Num 100)) 14 = Num 100
   \<and> calculateRSI (replicate 20 (Num 100)) 14 \<noteq> Num 50"
  by code_simp

subsection \<open>C7: the high and low of the snapshot\<close>

text \<open>
  C7. A tick always yields a snapshot, whose high is \<open>Math.max\<close> of the previous
  snapshot's high and the new candle's high, and whose low is \<open>Math.min\<close> of the previous
  low and the new candle's low. Loading a non-empty history yields a snapshot whose high
  and low are those of the last bar of the history.
\<close>

theorem snapshot_high_low:
  "(\<exists>st'. onTick st c = Inr st'
      \<and> MarketData.high (marketData st') =
          Math_max [MarketData.high (marketData st), Candle.high c]
      \<and> MarketData.low (marketData st') =
          Math_min [MarketData.low (marketData st), Candle.low c])
   \<and> (history \<noteq> [] \<longrightarrow>
        (\<exists>st'. initMarket st history = Inr st'
          \<and> MarketData.high (marketData st') = Candle.high (last history)
          \<and> MarketData.low (marketData st') = Candle.low (last history)))"
proof -
  obtain t where t: "processIndicators (updatedHistory (candlesRef st) c) = Inr t"
    using processIndicators_Inr [OF updatedHistory_nonempty] by blast
  have tick: "\<exists>st'. onTick st c = Inr st'
      \<and> MarketData.high (marketData st') =
          Math_max [MarketData.high (marketData st), Candle.high c]
      \<and> MarketData.low (marketData st') =
          Math_min [MarketData.low (marketData st), Candle.low c]"
    by (simp add: onTick_def Let_def t)
  have load: "\<exists>st'. initMarket st history = Inr st'
          \<and> MarketData.high (marketData st') = Candle.high (last history)
          \<and> MarketData.low (marketData st') = Candle.low (last history)"
    if ne: "history \<noteq> []"
  proof -
    obtain u where u: "processIndicators history = Inr u"
      using processIndicators_Inr [OF ne] by blast
    show ?thesis
      using ne by (simp add: initMarket_def Let_def u)
  qed
  show ?thesis
    using tick load by blast
qed

text \<open>
  From the initial snapshot (high and low 2650): a tick with a bar at 2660 raises the high
  to 2660 and keeps the low at 2650, while loading a history that ends with a bar at 2640
  sets both to 2640.
\<close>

theorem snapshot_high_low_witness:
  "[flat_candle 60000 2660, flat_candle 120000 2640] \<noteq> []
   \<and> (\<exists>st'. onTick \<lparr>candlesRef = [], marketData = initialMarketData\<rparr> (flat_candle 60000 2660)
              = Inr st'
        \<and> MarketData.high (marketData st') = Num 2660
        \<and> MarketData.low (marketData st') = Num 2650)
   \<and> (\<exists>st'. initMarket \<lparr>candlesRef = [], marketData = initialMarketData\<rparr>
                [flat_candle 60000 2660, flat_candle 120000 2640] = Inr st'
        \<and> MarketData.high (marketData st') = Num 2640
        \<and> MarketData.low (marketData st') = Num 2640)"
proof -
  have h: "[flat_candle 60000 2660, flat_candle 120000 2640] \<noteq> []" by simp
  have mx: "Math_max [MarketData.high initialMarketData, Candle.high (flat_candle 60000 2660)]
              = Num 2660"
    by (simp add: initialMarketData_def INITIAL_PRICE_def flat_candle_def Math_max_pair)
  have mn: "Math_min [MarketData.low initialMarketData, Candle.low (flat_candle 60000 2660)]
              = Num 2650"
    by (simp add: initialMarketData_def INITIAL_PRICE_def flat_candle_def Math_min_pair)
  have hi: "Candle.high (flat_candle 120000 2640) = Num 2640"
    and lo: "Candle.low (flat_candle 120000 2640) = Num 2640"
    by (simp_all add: flat_candle_def)
  show ?thesis
    using h mx mn hi lo
      snapshot_high_low [of "\<lparr>candlesRef = [], marketData = initialMarketData\<rparr>"
        "flat_candle 60000 2660" "[flat_candle 60000 2660, flat_candle 120000 2640]"]
    by simp
qed

subsection \<open>C8: stop-loss and take-profit of the fallback heuristic\<close>




subsection \<open>C9: the calibration offset\<close>

text \<open>
  C9. The object built for the AI collaborator does not carry the offset in all its
  price fields: with the initial snapshot (every price 2650) and an offset of 1,
  \<open>aiData\<close> has price 2651 but leaves high, low and ma50 at 2650, where \<open>displayData\<close>
  moves all of them to 2651.
\<close>

theorem aiData_offset_not_uniform:
  "price (aiData initialMarketData (Num 1)) = Num 2651
   \<and> MarketData.high (aiData initialMarketData (Num 1)) = Num 2650
   \<and> MarketData.low (aiData initialMarketData (Num 1)) = Num 2650
   \<and> ma50 (aiData initialMarketData (Num 1)) = Num 2650
   \<and> price (displayData initialMarketData (Num 1)) = Num 2651
   \<and> MarketData.high (displayData initialMarketData (Num 1)) = Num 2651
   \<and> MarketData.low (displayData initialMarketData (Num 1)) = Num 2651
   \<and> ma50 (displayData initialMarketData (Num 1)) = Num 2651"
  by (simp add: aiData_def displayData_def Let_def initialMarketData_def INITIAL_PRICE_def)

subsection \<open>C10: the heuristic never answers NEUTRAL\<close>

text \<open>
  C10. Whatever the snapshot, the timeframe, the clock and the random draw, a signal
  returned by the fallback heuristic has type BUY, SELL or WAIT, never NEUTRAL; and a
  signal is returned as soon as the ADX of the snapshot is not \<open>undefined\<close>.
\<close>

theorem generateOne_never_neutral:
  "(\<forall>s. generateOne data now rnd tf = Inr s \<longrightarrow>
        type s \<noteq> NEUTRAL \<and> (type s = BUY \<or> type s = SELL \<or> type s = WAIT))
   \<and> (adx data \<noteq> Undefined \<longrightarrow> (\<exists>s. generateOne data now rnd tf = Inr s))"
proof (cases "toFixed1 (adx data)")
  case (Inl e)
  then have "adx data = Undefined"
    using toFixed1_Inr [of "adx data"] by auto
  with Inl show ?thesis
    by (simp add: generateOne_def Let_def)
next
  case (Inr t)
  then show ?thesis
    by (auto simp add: generateOne_def Let_def)
qed

text \<open>The ranging snapshot on M15: a signal is returned, and it is a BUY.\<close>

theorem generateOne_never_neutral_witness:
  "adx ranging_snapshot \<noteq> Undefined
   \<and> (\<exists>s. generateOne ranging_snapshot (Num 0) (Num 0) M15 = Inr s
         \<and> type s = BUY \<and> type s \<noteq> NEUTRAL)"
proof -
  have h: "adx ranging_snapshot \<noteq> Undefined"
    by (simp add: ranging_snapshot_def)
  obtain s where s: "generateOne ranging_snapshot (Num 0) (Num 0) M15 = Inr s"
    using generateOne_never_neutral [of ranging_snapshot "Num 0" "Num 0" M15] h by blast
  have n: "type s \<noteq> NEUTRAL"
    using generateOne_never_neutral [of ranging_snapshot "Num 0" "Num 0" M15] s by blast
  have b: "type s = BUY"
    using s
    by (auto simp add: generateOne_def Let_def ranging_snapshot_def initialMarketData_def
        INITIAL_PRICE_def)
  show ?thesis
    using h s n b by blast
qed

end
